theory Spec2Isabelle
  imports Complex_Main
begin

section \<open>Dragon Dash dashboard: data generation, filtering and displayed metrics\<close>

text \<open>
  The program is one Python script, \<^verbatim>\<open>app.py\<close>. Monetary values are Python floats;
  they are embedded as \<^typ>\<open>real\<close>, so the rounding error of float addition is left out
  of the model. Dates are day numbers (\<^typ>\<open>int\<close>): the script only subtracts whole days
  from the current date and compares dates.
\<close>

subsection \<open>The random module\<close>

text \<open>
  Python's \<^verbatim>\<open>random\<close> module is a library outside the repository. Its generator state
  is an unbounded stream of raw draws; every primitive consumes one draw and maps it into
  its documented range: \<^verbatim>\<open>random()\<close> into \<open>[0, 1)\<close>, \<^verbatim>\<open>uniform(a, b)\<close> as
  \<open>a + (b - a) * random()\<close>, \<^verbatim>\<open>randint(a, b)\<close> into \<open>a..b\<close> and \<^verbatim>\<open>choice(seq)\<close> as an
  element of the sequence at an index below its length. The script calls \<^verbatim>\<open>randint\<close> with
  literal bounds \<open>a \<le> b\<close> and \<^verbatim>\<open>choice\<close> with non-empty literal lists only, so the
  exceptions of the two on other arguments are not part of the model.
\<close>

type_synonym rng = "nat \<Rightarrow> nat"

definition rng_next :: "rng \<Rightarrow> nat \<times> rng" where
  "rng_next g = (g 0, \<lambda>i. g (Suc i))"

definition random_random :: "rng \<Rightarrow> real \<times> rng" where
  "random_random g = (let (n, g') = rng_next g in (real (n mod 2 ^ 53) / 2 ^ 53, g'))"

definition random_uniform :: "real \<Rightarrow> real \<Rightarrow> rng \<Rightarrow> real \<times> rng" where
  "random_uniform a b g = (let (u, g') = random_random g in (a + (b - a) * u, g'))"

definition randbelow :: "nat \<Rightarrow> rng \<Rightarrow> nat \<times> rng" where
  "randbelow k g = (let (n, g') = rng_next g in (n mod k, g'))"

definition random_randint :: "int \<Rightarrow> int \<Rightarrow> rng \<Rightarrow> int \<times> rng" where
  "random_randint a b g = (let (n, g') = randbelow (nat (b + 1 - a)) g in (a + int n, g'))"

definition random_choice :: "'a list \<Rightarrow> rng \<Rightarrow> 'a \<times> rng" where
  "random_choice xs g = (let (n, g') = randbelow (length xs) g in (xs ! n, g'))"

subsection \<open>Rounding to two decimals\<close>

text \<open>
  \<^verbatim>\<open>round(x, 2)\<close>: the nearest multiple of \<open>0.01\<close>, a tie going to the even multiple.
\<close>

definition round_half_even :: "real \<Rightarrow> int" where
  "round_half_even x =
     (let f = \<lfloor>x\<rfloor>; d = x - of_int f
      in if d < 1 / 2 then f else if 1 / 2 < d then f + 1 else if even f then f else f + 1)"

definition round2 :: "real \<Rightarrow> real" where
  "round2 x = of_int (round_half_even (x * 100)) / 100"

subsection \<open>The Daily Ledger\<close>

record log_entry =
  log_date :: int
  log_cash_app :: real
  log_zelle :: real
  log_paypal :: real
  log_bank_transfer :: real
  daily_total :: real
  cumulative_total :: real
  transactions :: int

text \<open>
  The body of the loop of \<^verbatim>\<open>generate_daily_logs\<close> for one value of \<^verbatim>\<open>day\<close>: the state
  is the generator, the running \<^verbatim>\<open>total_cumulative\<close> and the list \<^verbatim>\<open>logs\<close>.
\<close>

definition daily_logs_step ::
  "int \<Rightarrow> int \<Rightarrow> int \<Rightarrow> rng \<times> real \<times> log_entry list \<Rightarrow> rng \<times> real \<times> log_entry list" where
  "daily_logs_step today num_days day st =
     (let (g0, total_cumulative, logs) = st;
          date = today - (num_days - day - 1);
          (u1, g1) = random_uniform 200 1500 g0;
          cash_app_daily = round2 u1;
          (u2, g2) = random_uniform 150 1200 g1;
          zelle_daily = round2 u2;
          (u3, g3) = random_uniform 300 2000 g2;
          paypal_daily = round2 u3;
          (u4, g4) = random_uniform 100 800 g3;
          bank_daily = round2 u4;
          daily = cash_app_daily + zelle_daily + paypal_daily + bank_daily;
          total_cumulative' = total_cumulative + daily;
          (t, g5) = random_randint 5 25 g4
      in (g5, total_cumulative',
          logs @ [\<lparr>log_date = date, log_cash_app = cash_app_daily, log_zelle = zelle_daily,
                    log_paypal = paypal_daily, log_bank_transfer = bank_daily,
                    daily_total = daily, cumulative_total = total_cumulative',
                    transactions = t\<rparr>]))"

fun daily_logs_loop ::
  "int \<Rightarrow> int \<Rightarrow> int list \<Rightarrow> rng \<times> real \<times> log_entry list \<Rightarrow> rng \<times> real \<times> log_entry list" where
  "daily_logs_loop today num_days [] st = st"
| "daily_logs_loop today num_days (day # days) st =
     daily_logs_loop today num_days days (daily_logs_step today num_days day st)"

text \<open>\<^verbatim>\<open>range(n)\<close> is empty for \<open>n \<le> 0\<close>.\<close>

definition py_range :: "int \<Rightarrow> int list" where
  "py_range n = [0..n - 1]"

definition generate_daily_logs :: "int \<Rightarrow> int \<Rightarrow> rng \<Rightarrow> log_entry list \<times> rng" where
  "generate_daily_logs today num_days g =
     (let (g', total_cumulative, logs) = daily_logs_loop today num_days (py_range num_days) (g, 0, [])
      in (logs, g'))"

subsection \<open>Strings\<close>

function str_nat :: "nat \<Rightarrow> string" where
  "str_nat n =
     (if n < 10 then [char_of (48 + n)] else str_nat (n div 10) @ [char_of (48 + n mod 10)])"
  by pat_completeness auto
termination
  by (relation "measure id") auto

declare str_nat.simps [simp del]

text \<open>The format \<^verbatim>\<open>{n:04d}\<close>: at least four characters, zeros after the sign.\<close>

definition zero_pad :: "nat \<Rightarrow> string \<Rightarrow> string" where
  "zero_pad w s = replicate (w - length s) (CHR ''0'') @ s"

definition format_04d :: "int \<Rightarrow> string" where
  "format_04d n =
     (if n < 0 then CHR ''-'' # zero_pad 3 (str_nat (nat (- n))) else zero_pad 4 (str_nat (nat n)))"

definition str_int :: "int \<Rightarrow> string" where
  "str_int n = (if n < 0 then CHR ''-'' # str_nat (nat (- n)) else str_nat (nat n))"

definition lower_char :: "char \<Rightarrow> char" where
  "lower_char c =
     (let n = (of_char c :: nat) in if 65 \<le> n \<and> n \<le> 90 then char_of (n + 32) else c)"

definition lower :: "string \<Rightarrow> string" where
  "lower s = map lower_char s"

fun starts_with :: "string \<Rightarrow> string \<Rightarrow> bool" where
  "starts_with [] s = True"
| "starts_with (p # ps) [] = False"
| "starts_with (p # ps) (c # cs) = (p = c \<and> starts_with ps cs)"

fun occurs_in :: "string \<Rightarrow> string \<Rightarrow> bool" where
  "occurs_in pat [] = starts_with pat []"
| "occurs_in pat (c # cs) = (starts_with pat (c # cs) \<or> occurs_in pat cs)"

subsection \<open>The Client Registry\<close>

datatype verified_label = Verified | Unverified

datatype client_payout = Confirmed | Pending | Processing

record client =
  client_id :: string
  name :: string
  email :: string
  verified :: verified_label
  max_balance :: real
  current_balance :: real
  cash_app_sent :: real
  zelle_sent :: real
  paypal_sent :: real
  bank_transfer :: real
  total_sent :: real
  payout_status :: client_payout
  last_activity :: int
  join_date :: int

definition first_names :: "string list" where
  "first_names =
     [''Alexander'', ''Samantha'', ''Michael'', ''Jennifer'', ''Christopher'', ''Ashley'',
      ''Matthew'', ''Jessica'', ''Andrew'', ''Sarah'', ''Joshua'', ''Amanda'', ''Daniel'',
      ''Melissa'', ''David'', ''Nicole'', ''James'', ''Elizabeth'', ''Robert'', ''Stephanie'']"

definition last_names :: "string list" where
  "last_names =
     [''Johnson'', ''Williams'', ''Brown'', ''Jones'', ''Garcia'', ''Miller'', ''Davis'',
      ''Rodriguez'', ''Martinez'', ''Hernandez'', ''Lopez'', ''Gonzalez'', ''Wilson'',
      ''Anderson'', ''Thomas'', ''Taylor'', ''Moore'', ''Jackson'', ''Martin'', ''Lee'']"

definition domains :: "string list" where
  "domains = [''gmail.com'', ''yahoo.com'', ''outlook.com'', ''hotmail.com'', ''aol.com'']"

text \<open>
  \<^verbatim>\<open>round(random.uniform(0, hi), 2) if random.random() > p else 0\<close>: the condition is
  evaluated first, and \<^verbatim>\<open>uniform\<close> draws only when it holds.
\<close>

definition channel_amount :: "real \<Rightarrow> real \<Rightarrow> rng \<Rightarrow> real \<times> rng" where
  "channel_amount hi p g =
     (let (r, g1) = random_random g
      in if p < r then (let (u, g2) = random_uniform 0 hi g1 in (round2 u, g2)) else (0, g1))"

text \<open>The body of the loop of \<^verbatim>\<open>generate_demo_clients\<close> for one value of \<^verbatim>\<open>i\<close>.\<close>

definition demo_clients_step :: "int \<Rightarrow> int \<Rightarrow> rng \<times> client list \<Rightarrow> rng \<times> client list" where
  "demo_clients_step today i st =
     (let (g0, data) = st;
          (first_name, g1) = random_choice first_names g0;
          (last_name, g2) = random_choice last_names g1;
          (cash_app, g3) = channel_amount 1000 (3 / 10) g2;
          (zelle, g4) = channel_amount 800 (4 / 10) g3;
          (paypal, g5) = channel_amount 1200 (2 / 10) g4;
          (bank, g6) = channel_amount 2000 (6 / 10) g5;
          total = cash_app + zelle + paypal + bank;
          (u, g7) = random_uniform 500 5000 g6;
          max_bal = round2 u;
          (noise, g8) = random_uniform (- 200) 500 g7;
          current = round2 (max_bal - total + noise);
          (is_verified, g9) = random_choice [True, False] g8;
          (status, g10) = random_choice [Confirmed, Pending, Processing] g9;
          (k, g11) = random_randint 1 99 g10;
          (domain, g12) = random_choice domains g11;
          (la, g13) = random_randint 0 30 g12;
          (jd, g14) = random_randint 30 365 g13
      in (g14,
          data @ [\<lparr>client_id = ''DD-'' @ format_04d (1000 + i),
                    name = first_name @ '' '' @ last_name,
                    email = lower first_name @ ''.'' @ lower last_name @ str_int k @ ''@'' @ domain,
                    verified = (if is_verified then Verified else Unverified),
                    max_balance = max_bal,
                    current_balance = max current 0,
                    cash_app_sent = cash_app,
                    zelle_sent = zelle,
                    paypal_sent = paypal,
                    bank_transfer = bank,
                    total_sent = total,
                    payout_status = status,
                    last_activity = today - la,
                    join_date = today - jd\<rparr>]))"

fun demo_clients_loop :: "int \<Rightarrow> int list \<Rightarrow> rng \<times> client list \<Rightarrow> rng \<times> client list" where
  "demo_clients_loop today [] st = st"
| "demo_clients_loop today (i # is) st = demo_clients_loop today is (demo_clients_step today i st)"

text \<open>
  \<^verbatim>\<open>random.seed(42)\<close> resets the generator before the loop, so the function starts from
  the state the seed gives, whatever the state before the call: \<open>seeded\<close> is that state.
\<close>

definition generate_demo_clients :: "rng \<Rightarrow> int \<Rightarrow> int \<Rightarrow> client list \<times> rng" where
  "generate_demo_clients seeded today num_clients =
     (let (g', data) = demo_clients_loop today (py_range num_clients) (seeded, [])
      in (data, g'))"

subsection \<open>The Payout Journal\<close>

datatype channel = Cash_App | Zelle | PayPal | Bank_Transfer

datatype journal_status = Completed | In_Processing | Failed

record payout =
  confirmation_id :: string
  amount :: real
  pay_method :: channel
  pay_status :: journal_status
  payout_day :: int
  payout_minute :: nat
  payout_client :: string




subsection \<open>Widget values\<close>

text \<open>
  A select box offers \<^verbatim>\<open>"All"\<close> and the labels of one column; the script tests
  \<^verbatim>\<open>!= "All"\<close> and then compares the column with the selected label.
\<close>

datatype 'a selection = All | Only 'a

datatype error = Value_Error | Re_Error



subsection \<open>Client filters\<close>

text \<open>Lines 219-230: the three sidebar filters, applied one after the other.\<close>

definition apply_filters ::
  "verified_label selection \<Rightarrow> client_payout selection \<Rightarrow> int \<times> int \<Rightarrow> client list \<Rightarrow> client list" where
  "apply_filters verification_filter payout_filter balance_range client_df =
     (let filtered_df = client_df;
          filtered_df = (if verification_filter \<noteq> All
                         then filter (\<lambda>c. Only (verified c) = verification_filter) filtered_df
                         else filtered_df);
          filtered_df = (if payout_filter \<noteq> All
                         then filter (\<lambda>c. Only (payout_status c) = payout_filter) filtered_df
                         else filtered_df)
      in filter (\<lambda>c. of_int (fst balance_range) \<le> current_balance c
                       \<and> current_balance c \<le> of_int (snd balance_range)) filtered_df)"

text \<open>
  Lines 285-289: \<^verbatim>\<open>str.contains(search_term, case=False, na=False)\<close>. The call keeps
  \<^verbatim>\<open>regex=True\<close>, the default of pandas: the term is compiled as a regular expression
  with \<^verbatim>\<open>re.IGNORECASE\<close> and searched in each cell, and a term that is not a regular
  expression raises \<^verbatim>\<open>re.error\<close>. The regular-expression engine is a library. The model
  fixes what it does on two kinds of pattern and takes the rest as the parameter
  \<open>engine\<close> (\<open>None\<close> when the pattern does not compile):
  \<^item> a pattern without special characters matches a cell where it occurs in it;
  \<^item> \<^verbatim>\<open>^\<close> followed by such a pattern matches a cell that starts with it.
\<close>

definition special_chars :: "char list" where
  "special_chars =
     [CHR ''.'', CHR ''^'', CHR ''$'', CHR ''*'', CHR ''+'', CHR ''?'', CHR ''{'', CHR ''}'',
      CHR ''['', CHR '']'', CHR 0x5C, CHR ''|'', CHR ''('', CHR '')'']"

definition plain :: "string \<Rightarrow> bool" where
  "plain pat = list_all (\<lambda>c. c \<notin> set special_chars) pat"

type_synonym re_engine = "string \<Rightarrow> (string \<Rightarrow> bool) option"

definition re_compile_ignorecase :: "re_engine \<Rightarrow> string \<Rightarrow> (string \<Rightarrow> bool) option" where
  "re_compile_ignorecase engine pat =
     (if plain pat then Some (\<lambda>s. occurs_in (lower pat) (lower s))
      else case pat of
             c # p \<Rightarrow> if c = CHR ''^'' \<and> plain p
                      then Some (\<lambda>s. starts_with (lower p) (lower s))
                      else engine pat
           | [] \<Rightarrow> engine pat)"

definition search_clients :: "re_engine \<Rightarrow> string \<Rightarrow> client list \<Rightarrow> error + client list" where
  "search_clients engine search_term filtered_df =
     (if search_term \<noteq> []
      then (case re_compile_ignorecase engine search_term of
              None \<Rightarrow> Inl Re_Error
            | Some m \<Rightarrow> Inr (filter (\<lambda>c. m (name c) \<or> m (email c)) filtered_df))
      else Inr filtered_df)"

subsection \<open>Key metrics\<close>

datatype delta = Avg real | Not_Applicable

record key_metrics =
  total_clients :: nat
  total_sent_shown :: real
  total_sent_delta :: delta
  total_balance_shown :: real
  total_balance_delta :: delta
  verified_count :: nat
  verification_rate :: real
  confirmed_payouts :: nat
  payouts_total :: nat

text \<open>Lines 235-275, on the \<^verbatim>\<open>filtered_df\<close> and \<^verbatim>\<open>payouts_df\<close> of that point of the script.\<close>

definition key_metrics_row :: "client list \<Rightarrow> payout list \<Rightarrow> key_metrics" where
  "key_metrics_row filtered_df payouts_df =
     (let sent = sum_list (map total_sent filtered_df);
          total_balance = sum_list (map current_balance filtered_df);
          n_verified = length (filter (\<lambda>c. verified c = Verified) filtered_df);
          rate = (if 0 < length filtered_df
                  then real n_verified / real (length filtered_df) * 100 else 0)
      in \<lparr>total_clients = length filtered_df,
          total_sent_shown = sent,
          total_sent_delta = (if 0 < length filtered_df
                              then Avg (sent / real (length filtered_df)) else Not_Applicable),
          total_balance_shown = total_balance,
          total_balance_delta = (if 0 < length filtered_df
                                 then Avg (total_balance / real (length filtered_df))
                                 else Not_Applicable),
          verified_count = n_verified,
          verification_rate = rate,
          confirmed_payouts = length (filter (\<lambda>p. pay_status p = Completed) payouts_df),
          payouts_total = length payouts_df\<rparr>)"

subsection \<open>Ledger filter and metrics\<close>

text \<open>Lines 330-337: \<^verbatim>\<open>date_range\<close> is the tuple the date widget returns.\<close>

definition filter_logs :: "int list \<Rightarrow> log_entry list \<Rightarrow> log_entry list" where
  "filter_logs date_range logs_df =
     (if length date_range = 2
      then (let start_date = date_range ! 0; end_date = date_range ! 1
            in filter (\<lambda>e. start_date \<le> log_date e \<and> log_date e \<le> end_date) logs_df)
      else logs_df)"

text \<open>\<^verbatim>\<open>Series.mean()\<close> of pandas: NaN on an empty column, with no exception.\<close>

datatype pd_float = Num real | NaN

definition series_mean :: "real list \<Rightarrow> pd_float" where
  "series_mean xs = (if xs = [] then NaN else Num (sum_list xs / real (length xs)))"

record ledger_metrics =
  days_tracked :: nat
  avg_daily :: pd_float
  total_period :: real
  cash_app_total :: real
  zelle_total :: real
  paypal_total :: real
  bank_transfer_total :: real

text \<open>Lines 380-397.\<close>

definition ledger_summary :: "log_entry list \<Rightarrow> ledger_metrics" where
  "ledger_summary logs_filtered =
     \<lparr>days_tracked = length logs_filtered,
      avg_daily = series_mean (map daily_total logs_filtered),
      total_period = sum_list (map daily_total logs_filtered),
      cash_app_total = sum_list (map log_cash_app logs_filtered),
      zelle_total = sum_list (map log_zelle logs_filtered),
      paypal_total = sum_list (map log_paypal logs_filtered),
      bank_transfer_total = sum_list (map log_bank_transfer logs_filtered)\<rparr>"

subsection \<open>Payout filter and summary\<close>

text \<open>Lines 439-441.\<close>

definition filter_payouts :: "journal_status selection \<Rightarrow> payout list \<Rightarrow> payout list" where
  "filter_payouts payout_status_filter payouts_df =
     (let filtered_payouts = payouts_df
      in if payout_status_filter \<noteq> All
         then filter (\<lambda>p. Only (pay_status p) = payout_status_filter) filtered_payouts
         else filtered_payouts)"

record payout_summary =
  completed_amount :: real
  processing_count :: nat
  failed_count :: nat

text \<open>
  Lines 463-476, on \<^verbatim>\<open>payouts_df\<close>. Its amounts are floats (only the copy
  \<^verbatim>\<open>filtered_payouts\<close> is formatted), so the \<^verbatim>\<open>isinstance(x, str)\<close> branch is not taken.
\<close>

definition payout_summary_row :: "payout list \<Rightarrow> payout_summary" where
  "payout_summary_row payouts_df =
     \<lparr>completed_amount = sum_list (map amount (filter (\<lambda>p. pay_status p = Completed) payouts_df)),
      processing_count = length (filter (\<lambda>p. pay_status p = In_Processing) payouts_df),
      failed_count = length (filter (\<lambda>p. pay_status p = Failed) payouts_df)\<rparr>"

subsection \<open>One run of the script\<close>

record widgets =
  verification_filter :: "verified_label selection"
  payout_filter :: "client_payout selection"
  balance_range :: "int \<times> int"
  date_range :: "int list"
  search_term :: string
  payout_status_filter :: "journal_status selection"

record page =
  metrics :: key_metrics
  client_table :: "client list"
  ledger :: ledger_metrics
  payout_table :: "payout list"
  summary :: payout_summary

text \<open>
  The script from line 219 on, top to bottom: the key metrics are computed before the
  search box is read, and an exception of the search ends the run.
\<close>

definition run_page ::
  "re_engine \<Rightarrow> widgets \<Rightarrow> client list \<Rightarrow> log_entry list \<Rightarrow> payout list \<Rightarrow> error + page" where
  "run_page engine w client_df logs_df payouts_df =
     (let filtered_df = apply_filters (verification_filter w) (payout_filter w) (balance_range w) client_df;
          km = key_metrics_row filtered_df payouts_df
      in case search_clients engine (search_term w) filtered_df of
           Inl e \<Rightarrow> Inl e
         | Inr filtered_df' \<Rightarrow>
             (let logs_filtered = filter_logs (date_range w) logs_df;
                  filtered_payouts = filter_payouts (payout_status_filter w) payouts_df
              in Inr \<lparr>metrics = km,
                      client_table = filtered_df',
                      ledger = ledger_summary logs_filtered,
                      payout_table = filtered_payouts,
                      summary = payout_summary_row payouts_df\<rparr>))"

subsection \<open>Auxiliary notions for the proofs\<close>

text \<open>A list of ledger entries whose cumulative totals continue the running total \<open>t\<close>.\<close>

fun running_from :: "real \<Rightarrow> log_entry list \<Rightarrow> bool" where
  "running_from t [] = True"
| "running_from t (e # es) =
     (cumulative_total e = t + daily_total e \<and> running_from (cumulative_total e) es)"

definition last_total :: "real \<Rightarrow> log_entry list \<Rightarrow> real" where
  "last_total t es = (if es = [] then t else cumulative_total (last es))"

text \<open>
  What the loop of \<^verbatim>\<open>generate_demo_clients\<close> establishes for every row: the stored total is
  the sum of the four channels, and the stored balance is the rounded computation
  \<^verbatim>\<open>max_balance - total_sent + noise\<close> for a noise of \<^verbatim>\<open>uniform(-200, 500)\<close>, raised to \<open>0\<close>.
\<close>

definition client_ok :: "client \<Rightarrow> bool" where
  "client_ok c \<longleftrightarrow>
     total_sent c = cash_app_sent c + zelle_sent c + paypal_sent c + bank_transfer c
     \<and> (\<exists>noise. - 200 \<le> noise \<and> noise \<le> 500
           \<and> current_balance c = max (round2 (max_balance c - total_sent c + noise)) 0)"

text \<open>A generator state whose next draws are the given ones, followed by zeros.\<close>

definition rng_of :: "nat list \<Rightarrow> rng" where
  "rng_of ns = (\<lambda>i. if i < length ns then ns ! i else 0)"

text \<open>
  The three sidebar predicates as one condition on a row: the selection is "All" or the
  label of the row, for the verification and payout columns, and the balance lies
  between the two bounds of the slider, both included.
\<close>

definition passes_sidebar ::
  "verified_label selection \<Rightarrow> client_payout selection \<Rightarrow> int \<times> int \<Rightarrow> client \<Rightarrow> bool" where
  "passes_sidebar v p r c \<longleftrightarrow>
     (v = All \<or> v = Only (verified c)) \<and> (p = All \<or> p = Only (payout_status c))
     \<and> of_int (fst r) \<le> current_balance c \<and> current_balance c \<le> of_int (snd r)"

text \<open>Sample data for evaluating the script on concrete inputs.\<close>

definition alexander :: client where
  "alexander =
     \<lparr>client_id = ''DD-1000'', name = ''Alexander Johnson'',
      email = ''alexander.johnson1@gmail.com'', verified = Verified,
      max_balance = 500, current_balance = 0, cash_app_sent = 0, zelle_sent = 0,
      paypal_sent = 0, bank_transfer = 1500, total_sent = 1500, payout_status = Confirmed,
      last_activity = 100, join_date = 70\<rparr>"

definition samantha :: client where
  "samantha =
     \<lparr>client_id = ''DD-1001'', name = ''Samantha Williams'',
      email = ''samantha.williams7@yahoo.com'', verified = Unverified,
      max_balance = 900, current_balance = 300.75, cash_app_sent = 100, zelle_sent = 50,
      paypal_sent = 100, bank_transfer = 0, total_sent = 250, payout_status = Pending,
      last_activity = 99, join_date = 60\<rparr>"

definition example_clients :: "client list" where
  "example_clients = [alexander, samantha]"

definition example_logs :: "log_entry list" where
  "example_logs =
     [\<lparr>log_date = 98, log_cash_app = 200, log_zelle = 150, log_paypal = 300,
       log_bank_transfer = 100, daily_total = 750, cumulative_total = 750, transactions = 5\<rparr>,
      \<lparr>log_date = 99, log_cash_app = 210, log_zelle = 150, log_paypal = 300,
       log_bank_transfer = 100, daily_total = 760, cumulative_total = 1510, transactions = 6\<rparr>,
      \<lparr>log_date = 100, log_cash_app = 220, log_zelle = 150, log_paypal = 300,
       log_bank_transfer = 100, daily_total = 770, cumulative_total = 2280, transactions = 7\<rparr>]"

definition example_payouts :: "payout list" where
  "example_payouts =
     [\<lparr>confirmation_id = ''PAY-10000'', amount = 100, pay_method = Cash_App,
       pay_status = Completed, payout_day = 100, payout_minute = 0,
       payout_client = ''DD-1000''\<rparr>,
      \<lparr>confirmation_id = ''PAY-20000'', amount = 50, pay_method = Zelle,
       pay_status = In_Processing, payout_day = 99, payout_minute = 0,
       payout_client = ''DD-1001''\<rparr>]"

definition example_widgets :: widgets where
  "example_widgets =
     \<lparr>verification_filter = All, payout_filter = All, balance_range = (0, 1000),
      date_range = [99, 100], search_term = ''sam'',
      payout_status_filter = Only Completed\<rparr>"

section \<open>Properties\<close>

subsection \<open>Ranges and evaluation of the generators\<close>

lemma length_py_range: "length (py_range n) = nat n"
  by (simp add: py_range_def)

lemma nth_py_range: "i < nat n \<Longrightarrow> py_range n ! i = int i"
  by (simp add: py_range_def)

lemma py_range_2: "py_range 2 = [0, 1]"
  by (simp add: py_range_def upto_rec1)

lemma py_range_1: "py_range 1 = [0]"
  by (simp add: py_range_def upto_rec1)

lemmas rng_defs =
  random_uniform_def random_random_def rng_next_def random_randint_def randbelow_def
  random_choice_def round2_def round_half_even_def

lemma rng_next_Cons: "rng_next (rng_of (n # ns)) = (n, rng_of ns)"
  by (simp add: rng_next_def rng_of_def fun_eq_iff)

lemma rng_next_Nil: "rng_next (rng_of []) = (0, rng_of [])"
  by (simp add: rng_next_def rng_of_def fun_eq_iff)

lemmas rng_simps =
  random_uniform_def random_random_def random_randint_def randbelow_def random_choice_def
  rng_next_Cons rng_next_Nil

lemma round2_of_int: "round2 (of_int k) = of_int k"
  by (simp add: round2_def round_half_even_def Let_def)

lemma round2_vals: "round2 500 = 500" "round2 1500 = 1500" "round2 (- 1200) = - 1200"
  using round2_of_int [of 500] round2_of_int [of 1500] round2_of_int [of "- 1200"]
  by simp_all

lemma digit_chars:
  "char_of (48::nat) = CHR ''0''" "char_of (49::nat) = CHR ''1''"
  by code_simp+

lemma str_nat_vals:
  "str_nat (Suc 0) = ''1''" "str_nat 1000 = ''1000''" "str_nat 10000 = ''10000''"
  by (simp_all add: str_nat.simps digit_chars)

lemma lower_vals: "lower ''Alexander'' = ''alexander''" "lower ''Johnson'' = ''johnson''"
  by code_simp+

lemmas str_vals = str_nat_vals lower_vals

lemma random_random_range: "random_random g = (u, g') \<Longrightarrow> 0 \<le> u \<and> u < 1"
  by (auto simp: random_random_def rng_next_def Let_def)

lemma random_uniform_range:
  assumes "random_uniform a b g = (x, g')" and "a \<le> b"
  shows "a \<le> x \<and> x \<le> b"
proof -
  obtain u where u: "random_random g = (u, g')" and x: "x = a + (b - a) * u"
    using assms(1) by (auto simp: random_uniform_def Let_def split: prod.splits)
  from random_random_range [OF u] have "0 \<le> u" "u \<le> 1" by simp_all
  moreover have "0 \<le> b - a" using assms(2) by simp
  ultimately have "0 \<le> (b - a) * u" and "(b - a) * u \<le> (b - a) * 1"
    by (simp_all only: mult_nonneg_nonneg mult_left_mono)
  with x show ?thesis by simp
qed





subsection \<open>The running total of the Daily Ledger\<close>

lemma running_from_snoc:
  "running_from t (es @ [e]) \<longleftrightarrow>
     running_from t es \<and> cumulative_total e = last_total t es + daily_total e"
  by (induction es arbitrary: t) (auto simp: last_total_def)

lemma daily_logs_step_shape:
  "\<exists>g' e. daily_logs_step today n day (g, tc, logs) = (g', cumulative_total e, logs @ [e])
      \<and> cumulative_total e = tc + daily_total e \<and> log_date e = today - (n - day - 1)"
  by (simp add: daily_logs_step_def Let_def split: prod.splits)

lemma daily_logs_loop_inv:
  "running_from 0 logs \<Longrightarrow> tc = last_total 0 logs \<Longrightarrow>
   daily_logs_loop today n days (g, tc, logs) = (g', tc', logs') \<Longrightarrow>
   running_from 0 logs' \<and> tc' = last_total 0 logs' \<and> length logs' = length logs + length days
   \<and> map log_date logs' = map log_date logs @ map (\<lambda>day. today - (n - day - 1)) days"
proof (induction days arbitrary: g tc logs)
  case Nil
  then show ?case by auto
next
  case (Cons day days)
  obtain g1 e where
    st: "daily_logs_step today n day (g, tc, logs) = (g1, cumulative_total e, logs @ [e])"
    and ce: "cumulative_total e = tc + daily_total e"
    and de: "log_date e = today - (n - day - 1)"
    using daily_logs_step_shape by blast
  have r: "running_from 0 (logs @ [e])"
    using Cons.prems(1,2) ce by (simp add: running_from_snoc)
  have l: "cumulative_total e = last_total 0 (logs @ [e])"
    by (simp add: last_total_def)
  from Cons.prems(3) st
  have "daily_logs_loop today n days (g1, cumulative_total e, logs @ [e]) = (g', tc', logs')"
    by simp
  from Cons.IH [OF r l this] de show ?case by simp
qed

lemma running_from_nth:
  "running_from t es \<Longrightarrow> i < length es \<Longrightarrow>
   cumulative_total (es ! i) =
     (if i = 0 then t else cumulative_total (es ! (i - 1))) + daily_total (es ! i)"
proof (induction es arbitrary: t i)
  case Nil
  then show ?case by simp
next
  case (Cons e es)
  show ?case
  proof (cases i)
    case 0
    with Cons.prems show ?thesis by simp
  next
    case (Suc j)
    with Cons.prems Cons.IH [of "cumulative_total e" j] show ?thesis
      by (cases j) auto
  qed
qed

text \<open>
  C2. A ledger generated for any number of days lists its entries oldest first (entry
  \<open>i\<close> is dated \<open>num_days - i - 1\<close> days before today); the cumulative total of entry
  \<open>0\<close> is its own daily total, and the cumulative total of every later entry is the
  cumulative total of the entry before it plus its own daily total.
\<close>

theorem generate_daily_logs_running_total:
  assumes "generate_daily_logs today n g = (logs, g')"
  shows "length logs = nat n
    \<and> (\<forall>i < length logs. log_date (logs ! i) = today - (n - int i - 1))
    \<and> (0 < length logs \<longrightarrow> cumulative_total (logs ! 0) = daily_total (logs ! 0))
    \<and> (\<forall>i. 0 < i \<and> i < length logs \<longrightarrow>
          cumulative_total (logs ! i)
            = cumulative_total (logs ! (i - 1)) + daily_total (logs ! i))"
proof -
  obtain tc where loop: "daily_logs_loop today n (py_range n) (g, 0, []) = (g', tc, logs)"
    using assms by (auto simp: generate_daily_logs_def Let_def split: prod.splits)
  have inv: "running_from 0 logs \<and> tc = last_total 0 logs
     \<and> length logs = length ([]::log_entry list) + length (py_range n)
     \<and> map log_date logs = map log_date [] @ map (\<lambda>day. today - (n - day - 1)) (py_range n)"
    using daily_logs_loop_inv [of "[]" 0 today n "py_range n" g g' tc logs] loop
    by (simp add: last_total_def)
  then have len: "length logs = nat n" by (simp add: length_py_range)
  have dates: "\<forall>i < length logs. log_date (logs ! i) = today - (n - int i - 1)"
  proof (intro allI impI)
    fix i assume i: "i < length logs"
    then have "log_date (logs ! i) = map log_date logs ! i" by simp
    also have "\<dots> = map (\<lambda>day. today - (n - day - 1)) (py_range n) ! i" using inv by simp
    also have "\<dots> = today - (n - int i - 1)"
      using i len by (simp add: length_py_range nth_py_range)
    finally show "log_date (logs ! i) = today - (n - int i - 1)" .
  qed
  from inv have rf: "running_from 0 logs" by simp
  show ?thesis using len dates running_from_nth [OF rf] by auto
qed

theorem generate_daily_logs_running_total_witness:
  "length (fst (generate_daily_logs 100 2 (\<lambda>i. 0))) = 2
   \<and> map log_date (fst (generate_daily_logs 100 2 (\<lambda>i. 0))) = [99, 100]
   \<and> map daily_total (fst (generate_daily_logs 100 2 (\<lambda>i. 0))) = [750, 750]
   \<and> map cumulative_total (fst (generate_daily_logs 100 2 (\<lambda>i. 0))) = [750, 1500]
   \<and> cumulative_total (fst (generate_daily_logs 100 2 (\<lambda>i. 0)) ! 1)
       = cumulative_total (fst (generate_daily_logs 100 2 (\<lambda>i. 0)) ! 0)
         + daily_total (fst (generate_daily_logs 100 2 (\<lambda>i. 0)) ! 1)"
proof -
  have h: "generate_daily_logs 100 2 (\<lambda>i. 0)
             = (fst (generate_daily_logs 100 2 (\<lambda>i. 0)), snd (generate_daily_logs 100 2 (\<lambda>i. 0)))"
    by simp
  have e: "map log_date (fst (generate_daily_logs 100 2 (\<lambda>i. 0))) = [99, 100]
     \<and> map daily_total (fst (generate_daily_logs 100 2 (\<lambda>i. 0))) = [750, 750]
     \<and> map cumulative_total (fst (generate_daily_logs 100 2 (\<lambda>i. 0))) = [750, 1500]"
    by (simp add: generate_daily_logs_def py_range_2 daily_logs_step_def rng_defs Let_def)
  from generate_daily_logs_running_total [OF h] e show ?thesis by simp
qed

subsection \<open>Generated client rows\<close>

lemma demo_clients_step_shape:
  "\<exists>g' c. demo_clients_step today i (g, data) = (g', data @ [c]) \<and> client_ok c"
  unfolding demo_clients_step_def client_ok_def Let_def
  by (auto split: prod.splits dest: random_uniform_range)

lemma demo_clients_loop_inv:
  "list_all client_ok data \<Longrightarrow> demo_clients_loop today is (g, data) = (g', data') \<Longrightarrow>
   list_all client_ok data' \<and> length data' = length data + length is"
proof (induction "is" arbitrary: g data)
  case Nil
  then show ?case by auto
next
  case (Cons i "is")
  obtain g1 c where st: "demo_clients_step today i (g, data) = (g1, data @ [c])"
    and ok: "client_ok c"
    using demo_clients_step_shape by blast
  have "list_all client_ok (data @ [c])" using Cons.prems(1) ok by simp
  moreover have "demo_clients_loop today is (g1, data @ [c]) = (g', data')"
    using Cons.prems(2) st by simp
  ultimately show ?case using Cons.IH by fastforce
qed

lemma generate_demo_clients_ok:
  assumes "generate_demo_clients seeded today n = (data, g')"
  shows "list_all client_ok data \<and> length data = nat n"
proof -
  have "demo_clients_loop today (py_range n) (seeded, []) = (g', data)"
    using assms by (auto simp: generate_demo_clients_def Let_def split: prod.splits)
  from demo_clients_loop_inv [OF _ this] show ?thesis by (simp add: length_py_range)
qed

lemma channel_amount_pass:
  "channel_amount 2000 (3 / 5) (rng_of [6755399441055744, 6755399441055744]) = (1500, rng_of [])"
  by (simp add: channel_amount_def rng_simps round2_vals Let_def)

lemma channel_amount_stop: "0 \<le> p \<Longrightarrow> channel_amount hi p (rng_of (0 # ns)) = (0, rng_of ns)"
  by (simp add: channel_amount_def rng_simps Let_def)

text \<open>
  One generated row, evaluated: the bank-transfer amount is drawn and is \<open>1500\<close>, the
  maximum balance is \<open>500\<close> and the noise \<open>-200\<close>, so the computed balance is \<open>-1200\<close>.
\<close>

lemma generate_demo_clients_example:
  "generate_demo_clients (rng_of [0, 0, 0, 0, 0, 6755399441055744, 6755399441055744]) 100 1 =
    ([\<lparr>client_id = ''DD-1000'', name = ''Alexander Johnson'',
       email = ''alexander.johnson1@gmail.com'', verified = Verified,
       max_balance = 500, current_balance = 0, cash_app_sent = 0, zelle_sent = 0,
       paypal_sent = 0, bank_transfer = 1500, total_sent = 1500, payout_status = Confirmed,
       last_activity = 100, join_date = 70\<rparr>], rng_of [])"
  by (simp add: generate_demo_clients_def py_range_1 demo_clients_step_def
        channel_amount_pass channel_amount_stop rng_simps round2_vals
        first_names_def last_names_def domains_def format_04d_def zero_pad_def str_int_def
        str_vals)

text \<open>
  C8. In every generated Client Registry, of any requested size, the stored total sent
  of each row is the sum of its four channel amounts (Cash App, Zelle, PayPal, Bank
  Transfer). Floats are reals here, so the sum is exact.
\<close>

theorem generate_demo_clients_total_sent:
  assumes "generate_demo_clients seeded today n = (data, g')" and "c \<in> set data"
  shows "total_sent c = cash_app_sent c + zelle_sent c + paypal_sent c + bank_transfer c"
  using generate_demo_clients_ok [OF assms(1)] assms(2)
  by (auto simp: list_all_iff client_ok_def)

theorem generate_demo_clients_total_sent_witness:
  "\<exists>c \<in> set (fst (generate_demo_clients
                      (rng_of [0, 0, 0, 0, 0, 6755399441055744, 6755399441055744]) 100 1)).
     total_sent c = 1500 \<and> bank_transfer c = 1500
     \<and> total_sent c = cash_app_sent c + zelle_sent c + paypal_sent c + bank_transfer c"
  using generate_demo_clients_total_sent
    [OF generate_demo_clients_example,
     of "hd (fst (generate_demo_clients
                    (rng_of [0, 0, 0, 0, 0, 6755399441055744, 6755399441055744]) 100 1))"]
  by (simp add: generate_demo_clients_example)



lemma lower_sam:
  "lower ''SAM'' = ''sam''" "lower ''Alexander Johnson'' = ''alexander johnson''"
  "lower ''Samantha Williams'' = ''samantha williams''"
  "lower ''alexander.johnson1@gmail.com'' = ''alexander.johnson1@gmail.com''"
  "lower ''samantha.williams7@yahoo.com'' = ''samantha.williams7@yahoo.com''"
  by code_simp+

subsection \<open>Filters\<close>

lemma filter_idem: "filter P (filter P xs) = filter P xs"
  by simp

lemma apply_filters_conj:
  "apply_filters v p r client_df = filter (passes_sidebar v p r) client_df"
  by (auto simp: apply_filters_def passes_sidebar_def Let_def intro: filter_cong)

text \<open>
  C6. When the date range does not have exactly two bounds, the ledger filter returns the
  whole Daily Ledger; with two bounds \<open>start\<close> and \<open>end\<close> it keeps, in order, exactly the
  entries whose date \<open>d\<close> satisfies \<open>start \<le> d \<le> end\<close>.
\<close>

theorem filter_logs_date_range:
  "(length bounds \<noteq> 2 \<longrightarrow> filter_logs bounds logs_df = logs_df)
   \<and> filter_logs [start_date, end_date] logs_df
       = filter (\<lambda>e. start_date \<le> log_date e \<and> log_date e \<le> end_date) logs_df
   \<and> (e \<in> set (filter_logs [start_date, end_date] logs_df)
        \<longleftrightarrow> e \<in> set logs_df \<and> start_date \<le> log_date e \<and> log_date e \<le> end_date)"
  by (simp add: filter_logs_def Let_def)

theorem filter_logs_date_range_witness:
  "length [99 :: int] \<noteq> 2
   \<and> map log_date (filter_logs [99] example_logs) = [98, 99, 100]
   \<and> map log_date (filter_logs [] example_logs) = [98, 99, 100]
   \<and> map log_date (filter_logs [1, 2, 3] example_logs) = [98, 99, 100]
   \<and> map log_date (filter_logs [99, 100] example_logs) = [99, 100]
   \<and> map log_date (filter_logs [98, 98] example_logs) = [98]"
  using filter_logs_date_range [of "[99]" example_logs 99 100 "example_logs ! 1"]
  by (simp add: example_logs_def filter_logs_def)

text \<open>
  C4. Filtering is idempotent: applying the sidebar client filters, the client search, the
  ledger date filter or the payout status filter to its own result, with the same
  selections, returns that result again.
\<close>

theorem filters_idempotent:
  "apply_filters v p r (apply_filters v p r client_df) = apply_filters v p r client_df
   \<and> filter_payouts s (filter_payouts s payouts_df) = filter_payouts s payouts_df
   \<and> filter_logs bounds (filter_logs bounds logs_df) = filter_logs bounds logs_df
   \<and> (search_clients engine query client_df = Inr view
        \<longrightarrow> search_clients engine query view = Inr view)"
proof (intro conjI impI)
  show "apply_filters v p r (apply_filters v p r client_df) = apply_filters v p r client_df"
    by (simp add: apply_filters_conj)
  show "filter_payouts s (filter_payouts s payouts_df) = filter_payouts s payouts_df"
    by (simp add: filter_payouts_def Let_def)
  show "filter_logs bounds (filter_logs bounds logs_df) = filter_logs bounds logs_df"
    by (auto simp: filter_logs_def Let_def intro!: filter_cong)
next
  assume "search_clients engine query client_df = Inr view"
  then show "search_clients engine query view = Inr view"
    by (auto simp: search_clients_def split: if_splits option.splits)
qed

theorem filters_idempotent_witness:
  "search_clients (\<lambda>pat. None) ''SAM'' example_clients = Inr [samantha]
   \<and> search_clients (\<lambda>pat. None) ''SAM'' [samantha] = Inr [samantha]
   \<and> apply_filters (Only Verified) All (0, 1000) example_clients = [alexander]
   \<and> apply_filters (Only Verified) All (0, 1000) [alexander] = [alexander]"
proof -
  have s: "search_clients (\<lambda>pat. None) ''SAM'' example_clients = Inr [samantha]"
    by (simp add: search_clients_def re_compile_ignorecase_def plain_def special_chars_def
          example_clients_def alexander_def samantha_def lower_sam)
  have a: "apply_filters (Only Verified) All (0, 1000) example_clients = [alexander]"
    by (simp add: apply_filters_def example_clients_def alexander_def samantha_def)
  from filters_idempotent
    [of "Only Verified" All "(0, 1000)" example_clients All "[]" "[]" "[]"
        "\<lambda>pat. None" "''SAM''" "[samantha]"] s a
  show ?thesis by (simp add: example_clients_def)
qed



subsection \<open>Generated payout confirmations\<close>














subsection \<open>Displayed metrics\<close>

lemma lower_more:
  "lower ''sam'' = ''sam''" "lower ''a'' = ''a''" "lower ''^a'' = ''^a''"
  by code_simp+

text \<open>
  One run of the script, evaluated: both sample clients pass the sidebar filters, the
  search for \<open>sam\<close> keeps one of them, and the payout table shows completed payouts only.
\<close>

lemma run_page_example:
  "run_page (\<lambda>pat. None) example_widgets example_clients example_logs example_payouts =
     Inr \<lparr>metrics =
            \<lparr>total_clients = 2, total_sent_shown = 1750, total_sent_delta = Avg 875,
             total_balance_shown = 300.75, total_balance_delta = Avg 150.375,
             verified_count = 1, verification_rate = 50, confirmed_payouts = 1,
             payouts_total = 2\<rparr>,
          client_table = [samantha],
          ledger =
            \<lparr>days_tracked = 2, avg_daily = Num 765, total_period = 1530,
             cash_app_total = 430, zelle_total = 300, paypal_total = 600,
             bank_transfer_total = 200\<rparr>,
          payout_table = [hd example_payouts],
          summary = \<lparr>completed_amount = 100, processing_count = 1, failed_count = 0\<rparr>\<rparr>"
  by (simp add: run_page_def example_widgets_def example_clients_def example_logs_def
        example_payouts_def alexander_def samantha_def apply_filters_def key_metrics_row_def
        search_clients_def re_compile_ignorecase_def plain_def special_chars_def
        lower_sam lower_more filter_logs_def ledger_summary_def series_mean_def
        filter_payouts_def payout_summary_row_def Let_def)

text \<open>
  C1, as stated, fails: the total sent shown is the sum over both clients that pass the
  sidebar filters although the search keeps only one of them, and the processing tally
  counts a payout that the status selection has removed from the filtered journal.
\<close>

theorem filtered_aggregates_counterexample:
  "total_sent_shown (metrics (projr (run_page (\<lambda>pat. None) example_widgets example_clients
       example_logs example_payouts))) = 1750
   \<and> sum_list (map total_sent (client_table (projr (run_page (\<lambda>pat. None) example_widgets
       example_clients example_logs example_payouts)))) = 250
   \<and> processing_count (summary (projr (run_page (\<lambda>pat. None) example_widgets example_clients
       example_logs example_payouts))) = 1
   \<and> length (filter (\<lambda>p. pay_status p = In_Processing)
        (payout_table (projr (run_page (\<lambda>pat. None) example_widgets example_clients
           example_logs example_payouts)))) = 0"
  by (simp add: run_page_example, simp add: samantha_def example_payouts_def)

text \<open>
  C1, amended. In a run of the script the client metrics (number of clients, total sent,
  total balance, verified count and rate) are the sums and counts over the rows that pass
  the three sidebar predicates, taken before the search is applied; the ledger metrics
  (days, average daily amount, period total, per-channel totals) are those of the
  date-filtered ledger; the payout tallies (completed amount, processing, failed and
  confirmed counts) are those of the whole Payout Journal, whatever status is selected.
\<close>

theorem displayed_aggregates:
  assumes "run_page engine w client_df logs_df payouts_df = Inr pg"
    and "V = filter (passes_sidebar (verification_filter w) (payout_filter w) (balance_range w))
               client_df"
    and "L = filter_logs (date_range w) logs_df"
  shows "total_clients (metrics pg) = length V
    \<and> total_sent_shown (metrics pg) = sum_list (map total_sent V)
    \<and> total_balance_shown (metrics pg) = sum_list (map current_balance V)
    \<and> verified_count (metrics pg) = length (filter (\<lambda>c. verified c = Verified) V)
    \<and> verification_rate (metrics pg)
        = (if V = [] then 0
           else real (length (filter (\<lambda>c. verified c = Verified) V)) / real (length V) * 100)
    \<and> days_tracked (ledger pg) = length L
    \<and> avg_daily (ledger pg) = series_mean (map daily_total L)
    \<and> total_period (ledger pg) = sum_list (map daily_total L)
    \<and> cash_app_total (ledger pg) = sum_list (map log_cash_app L)
    \<and> zelle_total (ledger pg) = sum_list (map log_zelle L)
    \<and> paypal_total (ledger pg) = sum_list (map log_paypal L)
    \<and> bank_transfer_total (ledger pg) = sum_list (map log_bank_transfer L)
    \<and> completed_amount (summary pg)
        = sum_list (map amount (filter (\<lambda>p. pay_status p = Completed) payouts_df))
    \<and> processing_count (summary pg)
        = length (filter (\<lambda>p. pay_status p = In_Processing) payouts_df)
    \<and> failed_count (summary pg) = length (filter (\<lambda>p. pay_status p = Failed) payouts_df)
    \<and> confirmed_payouts (metrics pg)
        = length (filter (\<lambda>p. pay_status p = Completed) payouts_df)"
proof -
  have m: "metrics pg = key_metrics_row V payouts_df"
    and l: "ledger pg = ledger_summary L"
    and s: "summary pg = payout_summary_row payouts_df"
    using assms
    by (auto simp: run_page_def Let_def apply_filters_conj split: sum.splits)
  show ?thesis
    unfolding m l s
    by (simp add: key_metrics_row_def ledger_summary_def payout_summary_row_def Let_def)
qed

theorem displayed_aggregates_witness:
  "filter (passes_sidebar All All (0, 1000)) example_clients = [alexander, samantha]
   \<and> total_sent_shown (metrics (projr (run_page (\<lambda>pat. None) example_widgets example_clients
       example_logs example_payouts))) = 1750
   \<and> sum_list (map total_sent [alexander, samantha]) = 1750
   \<and> total_sent_shown (metrics (projr (run_page (\<lambda>pat. None) example_widgets example_clients
       example_logs example_payouts)))
       = sum_list (map total_sent (filter (passes_sidebar All All (0, 1000)) example_clients))
   \<and> processing_count (summary (projr (run_page (\<lambda>pat. None) example_widgets example_clients
       example_logs example_payouts)))
       = length (filter (\<lambda>p. pay_status p = In_Processing) example_payouts)"
proof -
  let ?pg = "projr (run_page (\<lambda>pat. None) example_widgets example_clients example_logs
                      example_payouts)"
  have h: "run_page (\<lambda>pat. None) example_widgets example_clients example_logs example_payouts
             = Inr ?pg"
    by (simp add: run_page_example)
  have v: "filter (passes_sidebar All All (0, 1000)) example_clients = [alexander, samantha]"
    by (simp add: passes_sidebar_def example_clients_def alexander_def samantha_def)
  have w: "verification_filter example_widgets = All" "payout_filter example_widgets = All"
    "balance_range example_widgets = (0, 1000)"
    by (simp_all add: example_widgets_def)
  have e: "total_sent_shown (metrics ?pg) = 1750"
    by (simp add: run_page_example)
  have t: "sum_list (map total_sent [alexander, samantha]) = 1750"
    by (simp add: alexander_def samantha_def)
  note d = displayed_aggregates [OF h refl refl]
  from d have "total_sent_shown (metrics ?pg)
      = sum_list (map total_sent
          (filter (passes_sidebar (verification_filter example_widgets)
             (payout_filter example_widgets) (balance_range example_widgets)) example_clients))"
    by blast
  then have a: "total_sent_shown (metrics ?pg)
      = sum_list (map total_sent (filter (passes_sidebar All All (0, 1000)) example_clients))"
    by (simp only: w)
  from d have b: "processing_count (summary ?pg)
      = length (filter (\<lambda>p. pay_status p = In_Processing) example_payouts)"
    by blast
  from v e t a b show ?thesis by blast
qed

text \<open>
  C3, at a search term with a special character. The term \<open>^a\<close> keeps the client whose
  name starts with \<open>A\<close>, though \<open>^a\<close> occurs neither in that name nor in that email, and
  drops the other client, whose name and email contain an \<open>a\<close> further on.
\<close>

theorem search_term_is_a_pattern:
  "search_clients engine ''^a'' example_clients = Inr [alexander]
   \<and> \<not> occurs_in (lower ''^a'') (lower (name alexander))
   \<and> \<not> occurs_in (lower ''^a'') (lower (email alexander))
   \<and> occurs_in (lower ''a'') (lower (name samantha))"
  by (simp add: search_clients_def re_compile_ignorecase_def plain_def special_chars_def
        example_clients_def alexander_def samantha_def lower_sam lower_more)

text \<open>
  For a search term without special characters the final client view is the conjunction
  of the four predicates, and an empty term leaves the sidebar view as it is.
\<close>

lemma client_view_plain_term:
  "plain q \<Longrightarrow> q \<noteq> [] \<Longrightarrow>
   search_clients engine q (apply_filters v p r client_df) =
     Inr (filter (\<lambda>c. passes_sidebar v p r c
                       \<and> (occurs_in (lower q) (lower (name c))
                          \<or> occurs_in (lower q) (lower (email c)))) client_df)"
  by (simp add: search_clients_def re_compile_ignorecase_def apply_filters_conj conj_commute)

lemma client_view_empty_term:
  "search_clients engine [] (apply_filters v p r client_df) =
     Inr (filter (passes_sidebar v p r) client_df)"
  by (simp add: search_clients_def apply_filters_conj)

text \<open>
  C7, at a date range that contains no ledger day. The filtered ledger is empty and the
  average daily amount is NaN, while the two client averages fall back to "N/A" and the
  verification rate to \<open>0\<close> on an empty client view.
\<close>

theorem avg_daily_of_empty_ledger:
  "filter_logs [10, 20] example_logs = []
   \<and> avg_daily (ledger_summary (filter_logs [10, 20] example_logs)) = NaN
   \<and> total_period (ledger_summary (filter_logs [10, 20] example_logs)) = 0
   \<and> total_sent_delta (key_metrics_row [] example_payouts) = Not_Applicable
   \<and> total_balance_delta (key_metrics_row [] example_payouts) = Not_Applicable
   \<and> verification_rate (key_metrics_row [] example_payouts) = 0"
  by (simp add: filter_logs_def example_logs_def ledger_summary_def series_mean_def
        key_metrics_row_def)

end
